theory Spec2Isabelle
  imports Main "HOL-Library.Multiset" "HOL-Library.AList"
begin

section \<open>JavaScript values reachable from parsed JSON\<close>

text \<open>
  Both sources (\<^verbatim>\<open>src/index.js\<close> and its polished copy \<^verbatim>\<open>src/unnamed/part_000\<close>) only
  handle values that come out of \<^verbatim>\<open>JSON.parse\<close>: the request body produced by body-parser
  and the body of the FHIR response. A JSON number is modelled by its integer value
  (the FHIR \<^verbatim>\<open>total\<close> is a count); an object is the list of its own properties.
  \<^verbatim>\<open>undefined\<close> only arises from reading an absent property, so a JavaScript value is a
  \<open>json option\<close> with \<open>None\<close> for \<^verbatim>\<open>undefined\<close>.
\<close>

datatype json =
    JNull
  | JBool bool
  | JNum int
  | JStr string
  | JArr "json list"
  | JObj "(string \<times> json) list"

type_synonym jsval = "json option"

text \<open>
  What a JavaScript \<^verbatim>\<open>throw\<close> or a rejected promise carries: the runtime's \<^verbatim>\<open>TypeError\<close>,
  the \<^verbatim>\<open>SyntaxError\<close> of \<^verbatim>\<open>JSON.parse\<close>, the rejection of request-promise (network
  failure or non-2xx status), an error of the JWT library, and the string thrown by
  \<^verbatim>\<open>_throw\<close>.
\<close>

datatype error =
    TypeError
  | SyntaxError
  | RequestError
  | JwtError
  | Thrown string

definition ebind :: "error + 'a \<Rightarrow> ('a \<Rightarrow> error + 'b) \<Rightarrow> error + 'b" where
  "ebind m f = (case m of Inl e \<Rightarrow> Inl e | Inr v \<Rightarrow> f v)"

text \<open>
  Property read \<^verbatim>\<open>v.k\<close> for the property names the handlers use (\<^verbatim>\<open>hook\<close>,
  \<^verbatim>\<open>fhirServer\<close>, \<^verbatim>\<open>context\<close>, \<^verbatim>\<open>patientId\<close>, \<^verbatim>\<open>total\<close>, \<^verbatim>\<open>entry\<close>, \<^verbatim>\<open>resource\<close>,
  \<^verbatim>\<open>vaccineCode\<close>, \<^verbatim>\<open>text\<close>, \<^verbatim>\<open>expirationDate\<close>): none of them is inherited from a
  prototype, so an object yields its own property, a primitive or an array yields
  \<^verbatim>\<open>undefined\<close>, and reading from \<^verbatim>\<open>undefined\<close> or \<^verbatim>\<open>null\<close> throws.
\<close>

fun get_prop :: "jsval \<Rightarrow> string \<Rightarrow> error + jsval" where
  "get_prop None k = Inl TypeError"
| "get_prop (Some JNull) k = Inl TypeError"
| "get_prop (Some (JObj kvs)) k = Inr (map_of kvs k)"
| "get_prop (Some v) k = Inr None"

text \<open>Truthiness, as tested by \<^verbatim>\<open>||\<close> and \<^verbatim>\<open>!\<close>.\<close>

fun truthy :: "jsval \<Rightarrow> bool" where
  "truthy None = False"
| "truthy (Some JNull) = False"
| "truthy (Some (JBool b)) = b"
| "truthy (Some (JNum n)) = (n \<noteq> 0)"
| "truthy (Some (JStr s)) = (s \<noteq> [])"
| "truthy (Some (JArr xs)) = True"
| "truthy (Some (JObj kvs)) = True"

section \<open>The runtime the handlers call into\<close>

text \<open>
  The options object handed to request-promise (\<^verbatim>\<open>rp\<close>), and the incoming request and the
  response object of Express, with the fields the handlers touch. A fresh response has
  status 200 and nothing sent.
\<close>

record rp_options =
  uri :: string
  rp_method :: string
  rp_headers :: "(string \<times> string) list"
  qs :: "(string \<times> jsval) list"

record request =
  req_method :: string
  req_url :: string
  req_query :: "(string \<times> string) list"
  req_headers :: "(string \<times> string) list"
  req_body :: json

record res =
  status :: nat
  res_headers :: "(string \<times> string) list"
  sent :: "json option"

definition new_res :: res where
  "new_res = \<lparr>status = 200, res_headers = [], sent = None\<rparr>"

definition res_status :: "res \<Rightarrow> nat \<Rightarrow> res" where
  "res_status r code = r\<lparr>status := code\<rparr>"

definition res_json :: "res \<Rightarrow> json \<Rightarrow> res" where
  "res_json r v = r\<lparr>sent := Some v\<rparr>"

definition res_setHeader :: "res \<Rightarrow> string \<Rightarrow> string \<Rightarrow> res" where
  "res_setHeader r k v = r\<lparr>res_headers := AList.update k v (res_headers r)\<rparr>"

text \<open>
  Library and engine functions whose code is not part of the repository are parameters
  of the model: \<^verbatim>\<open>jwt.decode\<close> (its result is only logged, so only whether it throws
  matters), \<^verbatim>\<open>rp\<close> (resolves with the response body or rejects), \<^verbatim>\<open>JSON.parse\<close>,
  \<^verbatim>\<open>String.prototype.localeCompare\<close> on two strings, whether a string converts to the
  number zero (for \<^verbatim>\<open>== 0\<close>), and \<^verbatim>\<open>Number.prototype.toString\<close>.
\<close>

record runtime =
  jwt_decode :: "string option \<Rightarrow> error + unit"
  rp :: "rp_options \<Rightarrow> error + string"
  JSON_parse :: "string \<Rightarrow> error + json"
  localeCompare :: "string \<Rightarrow> string \<Rightarrow> int"
  string_to_number_is_zero :: "string \<Rightarrow> bool"
  number_to_string :: "int \<Rightarrow> string"

text \<open>
  \<^verbatim>\<open>ToString\<close>, as applied by a template literal, by \<^verbatim>\<open>localeCompare\<close> to its argument and
  by \<^verbatim>\<open>Array.prototype.join\<close> to the elements. A parsed object has no callable own
  property, so an own \<^verbatim>\<open>toString\<close> key shadows \<^verbatim>\<open>Object.prototype.toString\<close> with a
  non-function and the conversion throws; otherwise it is \<^verbatim>\<open>[object Object]\<close>. An array
  is joined with commas, \<^verbatim>\<open>null\<close> elements giving the empty string. A number is
  printed by the runtime.
\<close>

fun to_string_json :: "runtime \<Rightarrow> json \<Rightarrow> error + string"
  and join_comma :: "runtime \<Rightarrow> json list \<Rightarrow> error + string" where
  "to_string_json rt JNull = Inr ''null''"
| "to_string_json rt (JBool b) = Inr (if b then ''true'' else ''false'')"
| "to_string_json rt (JNum n) = Inr (number_to_string rt n)"
| "to_string_json rt (JStr s) = Inr s"
| "to_string_json rt (JArr xs) = join_comma rt xs"
| "to_string_json rt (JObj kvs) =
     (if ''toString'' \<in> fst ` set kvs then Inl TypeError else Inr ''[object Object]'')"
| "join_comma rt [] = Inr ''''"
| "join_comma rt (x # xs) =
     (case (if x = JNull then Inr '''' else to_string_json rt x) of
        Inl e \<Rightarrow> Inl e
      | Inr s \<Rightarrow>
          (if xs = [] then Inr s
           else (case join_comma rt xs of Inl e \<Rightarrow> Inl e | Inr r \<Rightarrow> Inr (s @ '','' @ r))))"

definition to_string :: "runtime \<Rightarrow> jsval \<Rightarrow> error + string" where
  "to_string rt v = (case v of None \<Rightarrow> Inr ''undefined'' | Some j \<Rightarrow> to_string_json rt j)"


text \<open>
  \<^verbatim>\<open>x == "patient-view"\<close> (the source tests \<^verbatim>\<open>body.hook != "patient-view"\<close>). Loose
  equality compares a string with a string by content; \<^verbatim>\<open>undefined\<close> and \<^verbatim>\<open>null\<close> equal
  no string; a boolean or a number is compared with the number the string converts to,
  which is \<^verbatim>\<open>NaN\<close> here; an object or array is first converted to a primitive, which
  for parsed JSON is its \<^verbatim>\<open>ToString\<close> (and may throw).
\<close>

fun loosely_equals_patient_view :: "runtime \<Rightarrow> jsval \<Rightarrow> error + bool" where
  "loosely_equals_patient_view rt None = Inr False"
| "loosely_equals_patient_view rt (Some JNull) = Inr False"
| "loosely_equals_patient_view rt (Some (JBool b)) = Inr False"
| "loosely_equals_patient_view rt (Some (JNum n)) = Inr False"
| "loosely_equals_patient_view rt (Some (JStr s)) = Inr (s = ''patient-view'')"
| "loosely_equals_patient_view rt (Some v) =
     ebind (to_string_json rt v) (\<lambda>s. Inr (s = ''patient-view''))"

text \<open>\<^verbatim>\<open>x == 0\<close>, as in \<^verbatim>\<open>record.total == 0\<close>.\<close>

fun loosely_equals_zero :: "runtime \<Rightarrow> jsval \<Rightarrow> error + bool" where
  "loosely_equals_zero rt None = Inr False"
| "loosely_equals_zero rt (Some JNull) = Inr False"
| "loosely_equals_zero rt (Some (JBool b)) = Inr (\<not> b)"
| "loosely_equals_zero rt (Some (JNum n)) = Inr (n = 0)"
| "loosely_equals_zero rt (Some (JStr s)) = Inr (string_to_number_is_zero rt s)"
| "loosely_equals_zero rt (Some v) =
     ebind (to_string_json rt v) (\<lambda>s. Inr (string_to_number_is_zero rt s))"

text \<open>\<^verbatim>\<open>s.split(c)\<close> for a one-character separator, and \<^verbatim>\<open>xs[1]\<close>.\<close>

fun split :: "string \<Rightarrow> char \<Rightarrow> string list" where
  "split [] c = [[]]"
| "split (x # xs) c =
     (if x = c then [] # split xs c
      else (case split xs c of [] \<Rightarrow> [[x]] | w # ws \<Rightarrow> (x # w) # ws))"

definition index1 :: "'a list \<Rightarrow> 'a option" where
  "index1 xs = (if 1 < length xs then Some (xs ! 1) else None)"

section \<open>Sorting\<close>

text \<open>
  \<^verbatim>\<open>Array.prototype.sort\<close> with a comparison function. The language fixes the result for
  a comparator that is consistent and does not throw (the stable sorted permutation)
  and leaves the sequence of comparator calls to the engine, except that an array of
  fewer than two elements needs none. The model is a stable insertion sort that,
  like the engine's binary insertion, hands the element being placed to the comparator
  as its first argument and moves it left of an element only on a negative result; a
  comparator that throws aborts the sort.
\<close>

fun insert_entry :: "('a \<Rightarrow> 'a \<Rightarrow> error + int) \<Rightarrow> 'a \<Rightarrow> 'a list \<Rightarrow> error + 'a list" where
  "insert_entry cmp pivot [] = Inr [pivot]"
| "insert_entry cmp pivot (y # ys) =
     (case cmp pivot y of
        Inl e \<Rightarrow> Inl e
      | Inr order \<Rightarrow>
          (if order < 0 then Inr (pivot # y # ys)
           else (case insert_entry cmp pivot ys of
                   Inl e \<Rightarrow> Inl e
                 | Inr r \<Rightarrow> Inr (y # r))))"

fun sort_from :: "('a \<Rightarrow> 'a \<Rightarrow> error + int) \<Rightarrow> 'a list \<Rightarrow> 'a list \<Rightarrow> error + 'a list" where
  "sort_from cmp done [] = Inr done"
| "sort_from cmp done (x # xs) =
     (case insert_entry cmp x done of
        Inl e \<Rightarrow> Inl e
      | Inr done' \<Rightarrow> sort_from cmp done' xs)"

definition array_sort :: "('a \<Rightarrow> 'a \<Rightarrow> error + int) \<Rightarrow> 'a list \<Rightarrow> error + 'a list" where
  "array_sort cmp xs = sort_from cmp [] xs"

section \<open>The steps of the promise chain\<close>

text \<open>\<^verbatim>\<open>_throw\<close> and \<^verbatim>\<open>print_then_return\<close> (which logs and returns its argument).\<close>

definition throw :: "string \<Rightarrow> error + 'a" where
  "throw str = Inl (Thrown str)"

definition print_then_return :: "'a \<Rightarrow> 'a" where
  "print_then_return a = a"

text \<open>
  \<^verbatim>\<open>record => (record.total == 0 ? _throw("No immmunization Record found") : record.entry)\<close>
\<close>

definition select_entry :: "runtime \<Rightarrow> json \<Rightarrow> error + jsval" where
  "select_entry rt record =
     ebind (get_prop (Some record) ''total'') (\<lambda>total.
     ebind (loosely_equals_zero rt total) (\<lambda>is_zero.
       if is_zero then throw ''No immmunization Record found''
       else get_prop (Some record) ''entry''))"

text \<open>
  The comparator
  \<^verbatim>\<open>(a, b) => a.resource.vaccineCode.text.localeCompare(b.resource.vaccineCode.text)\<close>.
  The receiver is evaluated first; calling \<^verbatim>\<open>localeCompare\<close> on anything but a string
  throws (no other parsed value has that method), and the argument is converted with
  \<^verbatim>\<open>ToString\<close>.
\<close>

definition vaccine_text :: "json \<Rightarrow> error + jsval" where
  "vaccine_text e =
     ebind (get_prop (Some e) ''resource'') (\<lambda>r.
     ebind (get_prop r ''vaccineCode'') (\<lambda>vc.
       get_prop vc ''text''))"

definition compare_entries :: "runtime \<Rightarrow> json \<Rightarrow> json \<Rightarrow> error + int" where
  "compare_entries rt a b =
     ebind (vaccine_text a) (\<lambda>ta.
       case ta of
         None \<Rightarrow> Inl TypeError
       | Some JNull \<Rightarrow> Inl TypeError
       | Some ja \<Rightarrow>
           ebind (vaccine_text b) (\<lambda>tb.
             case ja of
               JStr s \<Rightarrow> ebind (to_string rt tb) (\<lambda>that. Inr (localeCompare rt s that))
             | _ \<Rightarrow> Inl TypeError))"

text \<open>
  \<^verbatim>\<open>l => l.sort(...)\<close>. \<^verbatim>\<open>l\<close> is the array object held in \<^verbatim>\<open>record.entry\<close>, and
  \<^verbatim>\<open>sort\<close> reorders that object in place and returns it: the step is a state
  transformer on the parsed record, which afterwards holds the sorted array. Anything
  but an array has no callable \<^verbatim>\<open>sort\<close>.
\<close>

fun put_prop :: "json \<Rightarrow> string \<Rightarrow> json \<Rightarrow> json" where
  "put_prop (JObj kvs) k v = JObj (AList.update k v kvs)"
| "put_prop j k v = j"

fun sort_step :: "runtime \<Rightarrow> json \<Rightarrow> jsval \<Rightarrow> error + (json \<times> json list)" where
  "sort_step rt record (Some (JArr l)) =
     ebind (array_sort (compare_entries rt) l) (\<lambda>sorted.
       Inr (put_prop record ''entry'' (JArr sorted), sorted))"
| "sort_step rt record l = Inl TypeError"

text \<open>The rendering step. \<^verbatim>\<open>Array.prototype.map\<close> stops at the first throw.\<close>

fun map_err :: "('a \<Rightarrow> error + 'b) \<Rightarrow> 'a list \<Rightarrow> error + 'b list" where
  "map_err f [] = Inr []"
| "map_err f (x # xs) =
     (case f x of
        Inl e \<Rightarrow> Inl e
      | Inr y \<Rightarrow> (case map_err f xs of Inl e \<Rightarrow> Inl e | Inr ys \<Rightarrow> Inr (y # ys)))"

definition newline :: string where
  "newline = [CHR 0x0A]"

fun join_lines :: "string list \<Rightarrow> string" where
  "join_lines [] = []"
| "join_lines [x] = x"
| "join_lines (x # xs) = x @ newline @ join_lines xs"

definition render_row :: "runtime \<Rightarrow> json \<Rightarrow> error + string" where
  "render_row rt val =
     ebind (get_prop (Some val) ''resource'') (\<lambda>r.
     ebind (get_prop r ''expirationDate'') (\<lambda>d.
       let exp_date = (if truthy d then d else Some (JStr ''Does not expire'')) in
       ebind (vaccine_text val) (\<lambda>t.
       ebind (to_string rt t) (\<lambda>name.
       ebind (to_string rt exp_date) (\<lambda>date.
         Inr (''| '' @ name @ '' | '' @ date @ '' |''))))))"

definition table_header :: string where
  "table_header =
     ''| Vaccination | Expiration Date |'' @ newline @ ''| :---: | :---: |'' @ newline"

definition card :: "string \<times> string \<Rightarrow> string \<Rightarrow> json" where
  "card src markdown_result =
     JObj [(''summary'', JStr ''This patient has received immunizations''),
           (''detail'', JStr markdown_result),
           (''source'', JObj [(''label'', JStr (fst src)), (''url'', JStr (snd src))]),
           (''indicator'', JStr ''info'')]"

definition render_cards :: "runtime \<Rightarrow> string \<times> string \<Rightarrow> json list \<Rightarrow> error + json list" where
  "render_cards rt src immun_list =
     (if immun_list = [] then Inr []
      else ebind (map_err (render_row rt) immun_list) (\<lambda>rows.
             Inr [card src (table_header @ join_lines rows)]))"

section \<open>The handlers\<close>

text \<open>
  The middleware registered before every route sets four headers and passes the
  request on.
\<close>

definition cors_middleware :: "res \<Rightarrow> res" where
  "cors_middleware r0 =
     (let r1 = res_setHeader r0 ''Access-Control-Allow-Origin'' ''*'';
          r2 = res_setHeader r1 ''Access-Control-Allow-Method'' ''GET, POST, OPTIONS'';
          r3 = res_setHeader r2 ''Access-Control-Allow-Credentials'' ''true''
      in res_setHeader r3 ''Access-Control-Allow-Headers''
           ''Content-Type, Authorization, Origin, Accept, Content-Location, Location, X-Requested-With'')"

text \<open>\<^verbatim>\<open>handle_discovery\<close>, identical in both sources.\<close>

definition PatientView :: json where
  \<open>PatientView =
     JObj [(''services'',
       JArr [JObj [(''hook'', JStr ''patient-view''),
                   (''title'', JStr ''Steve's sample patient-view service''),
                   (''description'', JStr '' Steve's sample patient-view service and application''),
                   (''id'', JStr ''patientService'')]])]\<close>

definition handle_discovery :: "request \<Rightarrow> res \<Rightarrow> res" where
  "handle_discovery req r = res_json r PatientView"

text \<open>
  The promise chain hanging off \<^verbatim>\<open>rp(...)\<close> up to the rendering step, as written in
  \<^verbatim>\<open>part_000\<close> and, with its two extra \<^verbatim>\<open>print_then_return\<close> steps, in \<^verbatim>\<open>index.js\<close>. The
  argument \<open>fetched\<close> is the settled promise of \<^verbatim>\<open>rp\<close>. Besides the cards the result
  carries the parsed record as the chain leaves it.
\<close>

definition pipeline ::
  "runtime \<Rightarrow> string \<times> string \<Rightarrow> error + string \<Rightarrow> error + (json \<times> json list)" where
  "pipeline rt src fetched =
     ebind fetched (\<lambda>text.
     ebind (JSON_parse rt text) (\<lambda>record.
     ebind (select_entry rt record) (\<lambda>l.
     ebind (sort_step rt record l) (\<lambda>(record', immun_list).
     ebind (render_cards rt src immun_list) (\<lambda>cards.
       Inr (record', cards))))))"

definition pipeline_index ::
  "runtime \<Rightarrow> string \<times> string \<Rightarrow> error + string \<Rightarrow> error + (json \<times> json list)" where
  "pipeline_index rt src fetched =
     ebind fetched (\<lambda>text.
     ebind (JSON_parse rt text) (\<lambda>parsed.
     ebind (Inr (print_then_return parsed)) (\<lambda>record.
     ebind (select_entry rt record) (\<lambda>l.
     ebind (sort_step rt record l) (\<lambda>(record', sorted).
     ebind (Inr (print_then_return sorted)) (\<lambda>immun_list.
     ebind (render_cards rt src immun_list) (\<lambda>cards.
       Inr (record', cards))))))))"

text \<open>
  The last two links: \<^verbatim>\<open>.then(cards => res.json({cards}))\<close> and the
  \<^verbatim>\<open>.catch\<close> that answers \<^verbatim>\<open>{cards: []}\<close>.
\<close>

definition respond_cards :: "res \<Rightarrow> error + (json \<times> json list) \<Rightarrow> res" where
  "respond_cards r settled =
     (case settled of
        Inr (record', cards) \<Rightarrow> res_json r (JObj [(''cards'', JArr cards)])
      | Inl e \<Rightarrow> res_json r (JObj [(''cards'', JArr [])]))"

text \<open>
  What a call of a handler leaves behind: the outbound requests it issued and the
  response object. A handler that throws (the \<^verbatim>\<open>async\<close> function rejects) has sent
  nothing; it is the \<open>Inl\<close> result.
\<close>

record outcome =
  fetches :: "rp_options list"
  response :: res

definition immunization_request :: "string \<Rightarrow> jsval \<Rightarrow> rp_options" where
  "immunization_request patient_url patient_id =
     \<lparr>uri = patient_url,
      rp_method = ''GET'',
      rp_headers = [(''Accept'', ''application/json+fhir'')],
      qs = [(''patient'', patient_id)]\<rparr>"

text \<open>\<^verbatim>\<open>post_patient_view\<close> of \<^verbatim>\<open>src/unnamed/part_000\<close>.\<close>

definition post_patient_view :: "runtime \<Rightarrow> request \<Rightarrow> res \<Rightarrow> error + outcome" where
  \<open>post_patient_view rt req r =
     (case map_of (req_headers req) ''authorization'' of
        None \<Rightarrow> Inl TypeError
      | Some auth \<Rightarrow>
          (let auth_split = split auth CHR '' '';
               bearer_token = index1 auth_split
           in ebind (jwt_decode rt bearer_token) (\<lambda>decoded.
              ebind (get_prop (Some (req_body req)) ''hook'') (\<lambda>hook.
              ebind (loosely_equals_patient_view rt hook) (\<lambda>matches.
                if \<not> matches then
                  Inr \<lparr>fetches = [],
                       response = res_json (res_status r 400)
                         (JObj [(''error'', JStr ''CDS Hook doesn't match what was expected'')])\<rparr>
                else
                  ebind (get_prop (Some (req_body req)) ''fhirServer'') (\<lambda>root.
                  ebind (get_prop (Some (req_body req)) ''context'') (\<lambda>context.
                  ebind (get_prop context ''patientId'') (\<lambda>patient_id.
                  ebind (to_string rt root) (\<lambda>root_string.
                    let patient_url = root_string @ ''/Immunization'';
                        options = immunization_request patient_url patient_id
                    in Inr \<lparr>fetches = [options],
                            response = respond_cards r
                              (pipeline rt (''Your Immune Registry'', '''') (rp rt options))\<rparr>)))))))))\<close>

text \<open>
  \<^verbatim>\<open>post_patient_view\<close> of \<^verbatim>\<open>src/index.js\<close>: the rejection keeps the default status,
  and the card names another source.
\<close>

definition post_patient_view_index :: "runtime \<Rightarrow> request \<Rightarrow> res \<Rightarrow> error + outcome" where
  \<open>post_patient_view_index rt req r =
     (case map_of (req_headers req) ''authorization'' of
        None \<Rightarrow> Inl TypeError
      | Some auth \<Rightarrow>
          (let auth_split = split auth CHR '' '';
               bearer_token = index1 auth_split
           in ebind (jwt_decode rt bearer_token) (\<lambda>decoded.
              ebind (get_prop (Some (req_body req)) ''hook'') (\<lambda>hook.
              ebind (loosely_equals_patient_view rt hook) (\<lambda>matches.
                if \<not> matches then
                  Inr \<lparr>fetches = [],
                       response = res_json r
                         (JObj [(''error'', JStr ''Something is terrible here!'')])\<rparr>
                else
                  ebind (get_prop (Some (req_body req)) ''fhirServer'') (\<lambda>root.
                  ebind (get_prop (Some (req_body req)) ''context'') (\<lambda>context.
                  ebind (get_prop context ''patientId'') (\<lambda>patient_id.
                  ebind (to_string rt root) (\<lambda>root_string.
                    let patient_url = root_string @ ''/Immunization'';
                        options = immunization_request patient_url patient_id
                    in Inr \<lparr>fetches = [options],
                            response = respond_cards r
                              (pipeline_index rt (''Local Immune Registry'', ''http://www.google.com'')
                                 (rp rt options))\<rparr>)))))))))\<close>

section \<open>Notions used to state the properties\<close>

text \<open>
  The part of \<^verbatim>\<open>post_patient_view\<close> before the fetch is the same in both sources but for
  the rejection it sends. \<open>issued_request\<close> follows it and tells how far a call gets:
  it throws, it rejects the hook (\<open>None\<close>), or it issues the fetch with the given
  options. Lemmas \<open>post_patient_view_factor\<close> and \<open>post_patient_view_index_factor\<close>
  relate it to the two handlers.
\<close>

definition issued_request :: "runtime \<Rightarrow> request \<Rightarrow> error + rp_options option" where
  \<open>issued_request rt req =
     (case map_of (req_headers req) ''authorization'' of
        None \<Rightarrow> Inl TypeError
      | Some auth \<Rightarrow>
          ebind (jwt_decode rt (index1 (split auth CHR '' ''))) (\<lambda>decoded.
          ebind (get_prop (Some (req_body req)) ''hook'') (\<lambda>hook.
          ebind (loosely_equals_patient_view rt hook) (\<lambda>matches.
            if \<not> matches then Inr None
            else
              ebind (get_prop (Some (req_body req)) ''fhirServer'') (\<lambda>root.
              ebind (get_prop (Some (req_body req)) ''context'') (\<lambda>context.
              ebind (get_prop context ''patientId'') (\<lambda>patient_id.
              ebind (to_string rt root) (\<lambda>root_string.
                Inr (Some (immunization_request (root_string @ ''/Immunization'') patient_id))))))))))\<close>

text \<open>
  An entry of the shape the data model describes: \<^verbatim>\<open>resource.vaccineCode.text\<close> is a
  string and \<^verbatim>\<open>resource.expirationDate\<close> is a string or absent.
\<close>

definition expiration_date :: "json \<Rightarrow> error + jsval" where
  "expiration_date e =
     ebind (get_prop (Some e) ''resource'') (\<lambda>r. get_prop r ''expirationDate'')"

definition well_formed_entry :: "json \<Rightarrow> bool" where
  "well_formed_entry e =
     (case vaccine_text e of
        Inr (Some (JStr name)) \<Rightarrow>
          (case expiration_date e of
             Inr None \<Rightarrow> True
           | Inr (Some (JStr d)) \<Rightarrow> True
           | _ \<Rightarrow> False)
      | _ \<Rightarrow> False)"

definition name_of :: "json \<Rightarrow> string" where
  "name_of e = (case vaccine_text e of Inr (Some (JStr name)) \<Rightarrow> name | _ \<Rightarrow> [])"

definition date_of :: "json \<Rightarrow> string option" where
  "date_of e = (case expiration_date e of Inr (Some (JStr d)) \<Rightarrow> Some d | _ \<Rightarrow> None)"

text \<open>
  The table row for a name and a date cell, and the cell the code prints for an entry:
  the date when it is a non-empty string, the default text otherwise.
\<close>

definition table_row :: "string \<Rightarrow> string \<Rightarrow> string" where
  "table_row name cell = ''| '' @ name @ '' | '' @ cell @ '' |''"

definition date_cell :: "json \<Rightarrow> string" where
  "date_cell e =
     (case date_of e of
        None \<Rightarrow> ''Does not expire''
      | Some d \<Rightarrow> if d = [] then ''Does not expire'' else d)"

definition row_of :: "json \<Rightarrow> string" where
  "row_of e = table_row (name_of e) (date_cell e)"

text \<open>
  The order the comparator induces on well-formed entries, what it means for a
  comparison function to be consistent (the condition under which the language fixes
  the result of \<^verbatim>\<open>sort\<close>), and the stable insertion sort for a comparison function that
  cannot throw.
\<close>

definition entry_order :: "runtime \<Rightarrow> json \<Rightarrow> json \<Rightarrow> int" where
  "entry_order rt a b = localeCompare rt (name_of a) (name_of b)"


fun place :: "('a \<Rightarrow> 'a \<Rightarrow> int) \<Rightarrow> 'a \<Rightarrow> 'a list \<Rightarrow> 'a list" where
  "place c pivot [] = [pivot]"
| "place c pivot (y # ys) =
     (if c pivot y < 0 then pivot # y # ys else y # place c pivot ys)"

fun place_all :: "('a \<Rightarrow> 'a \<Rightarrow> int) \<Rightarrow> 'a list \<Rightarrow> 'a list \<Rightarrow> 'a list" where
  "place_all c done [] = done"
| "place_all c done (x # xs) = place_all c (place c x done) xs"

definition stable_sort :: "('a \<Rightarrow> 'a \<Rightarrow> int) \<Rightarrow> 'a list \<Rightarrow> 'a list" where
  "stable_sort c xs = place_all c [] xs"

section \<open>A concrete runtime and concrete requests\<close>

text \<open>
  For evaluating the handlers: a decoder that never throws, a fetch with a fixed
  outcome, a parser given by a finite table of texts, comparison of strings by code
  units, the two shortest strings that convert to zero, and numbers printed as their
  decimal digits.
\<close>

text \<open>
  Decimal digits of an integer: what \<^verbatim>\<open>Number.prototype.toString\<close> gives for the integers
  a double holds exactly, up to \<open>2 ^ 53\<close> in magnitude.
\<close>

function decimal_digits :: "nat \<Rightarrow> string" where
  "decimal_digits n =
     (if n < 10 then [''0123456789'' ! n]
      else decimal_digits (n div 10) @ [''0123456789'' ! (n mod 10)])"
  by pat_completeness auto
termination
  by (relation "measure (\<lambda>n. n)") auto

definition decimal_string :: "int \<Rightarrow> string" where
  "decimal_string i =
     (if i < 0 then ''-'' @ decimal_digits (nat (- i)) else decimal_digits (nat i))"

fun code_unit_compare :: "string \<Rightarrow> string \<Rightarrow> int" where
  "code_unit_compare [] [] = 0"
| "code_unit_compare [] (y # ys) = - 1"
| "code_unit_compare (x # xs) [] = 1"
| "code_unit_compare (x # xs) (y # ys) =
     (if (of_char x :: nat) < of_char y then - 1
      else if (of_char y :: nat) < of_char x then 1
      else code_unit_compare xs ys)"

definition test_runtime :: "error + string \<Rightarrow> (string \<times> json) list \<Rightarrow> runtime" where
  "test_runtime fetched table =
     \<lparr>jwt_decode = (\<lambda>token. Inr ()),
      rp = (\<lambda>options. fetched),
      JSON_parse = (\<lambda>text. case map_of table text of None \<Rightarrow> Inl SyntaxError | Some j \<Rightarrow> Inr j),
      localeCompare = code_unit_compare,
      string_to_number_is_zero = (\<lambda>s. s = [] \<or> s = ''0''),
      number_to_string = decimal_string\<rparr>"

definition entry_with :: "(string \<times> json) list \<Rightarrow> json" where
  "entry_with props = JObj [(''resource'', JObj props)]"

definition mmr_entry :: json where
  "mmr_entry = entry_with [(''vaccineCode'', JObj [(''text'', JStr ''MMR'')])]"

definition flu_entry :: json where
  "flu_entry = entry_with [(''vaccineCode'', JObj [(''text'', JStr ''Flu'')]),
                           (''expirationDate'', JStr ''2025-01-01'')]"

definition bundle_of :: "int \<Rightarrow> json list \<Rightarrow> json" where
  "bundle_of n es = JObj [(''total'', JNum n), (''entry'', JArr es)]"

definition hook_request :: "(string \<times> string) list \<Rightarrow> json \<Rightarrow> request" where
  "hook_request hs hook =
     \<lparr>req_method = ''POST'',
      req_url = ''/test1/cds-services/patientService'',
      req_query = [],
      req_headers = hs,
      req_body = JObj [(''hook'', hook),
                       (''fhirServer'', JStr ''http://fhir.example/r2''),
                       (''context'', JObj [(''patientId'', JStr ''p1'')])]\<rparr>"

definition bearer :: "(string \<times> string) list" where
  "bearer = [(''authorization'', ''Bearer a.b.c'')]"

definition sample_options :: rp_options where
  "sample_options =
     \<lparr>uri = ''http://fhir.example/r2/Immunization'',
      rp_method = ''GET'',
      rp_headers = [(''Accept'', ''application/json+fhir'')],
      qs = [(''patient'', Some (JStr ''p1''))]\<rparr>"

text \<open>Response bodies of the FHIR server used below, and what they parse to.\<close>

definition sample_text :: string where
  \<open>sample_text =
     ''{"total":2,"entry":[{"resource":{"vaccineCode":{"text":"MMR"}}},{"resource":{"vaccineCode":{"text":"Flu"},"expirationDate":"2025-01-01"}}]}''\<close>

definition sample_bundle :: json where
  "sample_bundle = bundle_of 2 [mmr_entry, flu_entry]"

definition zero_total_text :: string where
  \<open>zero_total_text = ''{"total":0,"entry":[{"resource":{"vaccineCode":{"text":"MMR"}}}]}''\<close>

definition zero_total_bundle :: json where
  "zero_total_bundle = bundle_of 0 [mmr_entry]"

definition no_entry_text :: string where
  \<open>no_entry_text = ''{"total":1}''\<close>

definition no_entry_bundle :: json where
  "no_entry_bundle = JObj [(''total'', JNum 1)]"

definition no_name_text :: string where
  \<open>no_name_text = ''{"total":1,"entry":[{"resource":{"vaccineCode":{}}}]}''\<close>

definition no_name_bundle :: json where
  "no_name_bundle = bundle_of 1 [entry_with [(''vaccineCode'', JObj [])]]"

definition not_json_text :: string where
  \<open>not_json_text = ''<html>Bad gateway</html>''\<close>

section \<open>Basic facts\<close>

lemma ebind_simps [simp]:
  "ebind (Inl e) f = Inl e"
  "ebind (Inr v) f = f v"
  by (simp_all add: ebind_def)

lemma post_patient_view_factor:
  \<open>post_patient_view rt req r =
     (case issued_request rt req of
        Inl e \<Rightarrow> Inl e
      | Inr None \<Rightarrow>
          Inr \<lparr>fetches = [],
               response = res_json (res_status r 400)
                 (JObj [(''error'', JStr ''CDS Hook doesn't match what was expected'')])\<rparr>
      | Inr (Some options) \<Rightarrow>
          Inr \<lparr>fetches = [options],
               response = respond_cards r
                 (pipeline rt (''Your Immune Registry'', '''') (rp rt options))\<rparr>)\<close>
  unfolding post_patient_view_def issued_request_def
  by (simp add: ebind_def Let_def split: option.splits sum.splits)

lemma post_patient_view_index_factor:
  \<open>post_patient_view_index rt req r =
     (case issued_request rt req of
        Inl e \<Rightarrow> Inl e
      | Inr None \<Rightarrow>
          Inr \<lparr>fetches = [],
               response = res_json r (JObj [(''error'', JStr ''Something is terrible here!'')])\<rparr>
      | Inr (Some options) \<Rightarrow>
          Inr \<lparr>fetches = [options],
               response = respond_cards r
                 (pipeline_index rt (''Local Immune Registry'', ''http://www.google.com'')
                    (rp rt options))\<rparr>)\<close>
  unfolding post_patient_view_index_def issued_request_def
  by (simp add: ebind_def Let_def split: option.splits sum.splits)

lemma pipeline_index_eq: "pipeline_index rt src fetched = pipeline rt src fetched"
  unfolding pipeline_index_def pipeline_def print_then_return_def
  by simp

lemma status_cors [simp]: "status (cors_middleware new_res) = 200"
  by (simp add: cors_middleware_def new_res_def res_setHeader_def)

lemma sent_cors [simp]: "sent (cors_middleware new_res) = None"
  by (simp add: cors_middleware_def new_res_def res_setHeader_def)

section \<open>The discovery handler\<close>

text \<open>
  C8. Whatever two requests reach the discovery handler, with whatever headers, query
  parameters and bodies, it leaves the same response: status 200 (the status of a
  fresh response, which the handler does not touch) and the fixed JSON body
  \<^verbatim>\<open>{services: [{hook: "patient-view", title, description, id: "patientService"}]}\<close>
  with the single static descriptor.
\<close>

theorem discovery_is_static:
  \<open>handle_discovery req1 r = handle_discovery req2 r \<and>
   status (handle_discovery req1 (cors_middleware new_res)) = 200 \<and>
   sent (handle_discovery req1 r) =
     Some (JObj [(''services'',
       JArr [JObj [(''hook'', JStr ''patient-view''),
                   (''title'', JStr ''Steve's sample patient-view service''),
                   (''description'', JStr '' Steve's sample patient-view service and application''),
                   (''id'', JStr ''patientService'')]])])\<close>
  by (simp add: handle_discovery_def res_json_def PatientView_def)

section \<open>Authentication extraction and hook validation\<close>

text \<open>
  C7 (as amended). For every patient-view POST request whose Authorization header is
  missing, the authentication-extraction step is an unguarded fault: no null-check
  exists, so splitting the absent header throws a TypeError in both sources, before
  anything is sent and before any fetch. (A header that is present but not of the
  form \<^verbatim>\<open><scheme> <token>\<close> does not fault; see the counterexample below.)
\<close>

theorem missing_authorization_is_a_fault:
  assumes "map_of (req_headers req) ''authorization'' = None"
  shows "post_patient_view rt req r = Inl TypeError \<and>
         post_patient_view_index rt req r = Inl TypeError"
  using assms by (simp add: post_patient_view_def post_patient_view_index_def)

theorem missing_authorization_is_a_fault_witness:
  "map_of (req_headers (hook_request [] (JStr ''patient-view''))) ''authorization'' = None \<and>
   post_patient_view (test_runtime (Inl RequestError) [])
     (hook_request [] (JStr ''patient-view'')) new_res = Inl TypeError \<and>
   post_patient_view_index (test_runtime (Inl RequestError) [])
     (hook_request [] (JStr ''patient-view'')) new_res = Inl TypeError"
proof -
  have h: "map_of (req_headers (hook_request [] (JStr ''patient-view''))) ''authorization'' = None"
    by (simp add: hook_request_def)
  show ?thesis
    using h missing_authorization_is_a_fault [OF h] by simp
qed

text \<open>
  C7 as stated fails for a header that is present but malformed: \<^verbatim>\<open>"Bearer"\<close> has no
  second piece, the token is \<^verbatim>\<open>undefined\<close>, nothing throws, and the request (here with
  a wrong hook) is answered with status 400.
\<close>

theorem malformed_authorization_counterexample:
  \<open>map_of (req_headers (hook_request [(''authorization'', ''Bearer'')] (JStr ''order-review'')))
     ''authorization'' = Some ''Bearer'' \<and>
   index1 (split ''Bearer'' CHR '' '') = None \<and>
   post_patient_view (test_runtime (Inl RequestError) [])
     (hook_request [(''authorization'', ''Bearer'')] (JStr ''order-review'')) new_res =
     Inr \<lparr>fetches = [],
          response = \<lparr>status = 400, res_headers = [],
            sent = Some (JObj [(''error'', JStr ''CDS Hook doesn't match what was expected'')])\<rparr>\<rparr>\<close>
  by (simp add: post_patient_view_def hook_request_def test_runtime_def index1_def
      new_res_def res_json_def res_status_def)

text \<open>
  What the loose comparison makes of the values a hook field can hold: every primitive
  but the string itself differs from it, and the array of that one string equals it.
\<close>

lemma hook_comparison_cases:
  "loosely_equals_patient_view rt None = Inr False"
  "loosely_equals_patient_view rt (Some JNull) = Inr False"
  "loosely_equals_patient_view rt (Some (JBool b)) = Inr False"
  "loosely_equals_patient_view rt (Some (JNum n)) = Inr False"
  "loosely_equals_patient_view rt (Some (JStr s)) = Inr (s = ''patient-view'')"
  "loosely_equals_patient_view rt (Some (JArr [JStr ''patient-view''])) = Inr True"
  by simp_all

text \<open>
  The copy in \<^verbatim>\<open>index.js\<close> sends the rejection without setting a status, so the
  response keeps the status it had.
\<close>

lemma index_rejection_keeps_status:
  assumes "map_of (req_headers req) ''authorization'' = Some auth"
    and "jwt_decode rt (index1 (split auth CHR '' '')) = Inr decoded"
    and "get_prop (Some (req_body req)) ''hook'' = Inr hook"
    and "loosely_equals_patient_view rt hook = Inr False"
  shows "post_patient_view_index rt req r =
     Inr \<lparr>fetches = [],
          response = \<lparr>status = status r, res_headers = res_headers r,
            sent = Some (JObj [(''error'', JStr ''Something is terrible here!'')])\<rparr>\<rparr>"
  using assms
  by (simp add: post_patient_view_index_def res_json_def)

text \<open>
  C1 (as amended). For every patient-view POST request that carries an Authorization
  header whose token the decoder accepts, and whose body's hook field is not loosely
  equal (JavaScript \<^verbatim>\<open>!=\<close>) to \<^verbatim>\<open>"patient-view"\<close>, the handler of \<^verbatim>\<open>part_000\<close> responds
  HTTP 400 with a JSON body holding an \<^verbatim>\<open>error\<close> field, and returns without performing
  the FHIR fetch.
\<close>

theorem hook_mismatch_rejected:
  assumes "map_of (req_headers req) ''authorization'' = Some auth"
    and "jwt_decode rt (index1 (split auth CHR '' '')) = Inr decoded"
    and "get_prop (Some (req_body req)) ''hook'' = Inr hook"
    and "loosely_equals_patient_view rt hook = Inr False"
  shows \<open>post_patient_view rt req r =
     Inr \<lparr>fetches = [],
          response = \<lparr>status = 400, res_headers = res_headers r,
            sent = Some (JObj [(''error'', JStr ''CDS Hook doesn't match what was expected'')])\<rparr>\<rparr>\<close>
  using assms
  by (simp add: post_patient_view_def res_json_def res_status_def)

theorem hook_mismatch_rejected_witness:
  \<open>post_patient_view (test_runtime (Inl RequestError) [])
     (hook_request bearer (JStr ''order-review'')) new_res =
     Inr \<lparr>fetches = [],
          response = \<lparr>status = 400, res_headers = [],
            sent = Some (JObj [(''error'', JStr ''CDS Hook doesn't match what was expected'')])\<rparr>\<rparr>\<close>
  using hook_mismatch_rejected [of "hook_request bearer (JStr ''order-review'')" "''Bearer a.b.c''"
      "test_runtime (Inl RequestError) []" "()" "Some (JStr ''order-review'')" new_res]
  by (simp add: hook_request_def bearer_def test_runtime_def new_res_def)

text \<open>
  C1 as stated fails: the hook \<^verbatim>\<open>["patient-view"]\<close> is an array, not the string, yet
  \<^verbatim>\<open>!=\<close> converts it to \<^verbatim>\<open>"patient-view"\<close>; the request passes validation, the fetch
  is issued (it fails here) and the answer has status 200.
\<close>

theorem hook_array_counterexample:
  \<open>get_prop (Some (req_body (hook_request bearer (JArr [JStr ''patient-view''])))) ''hook'' =
     Inr (Some (JArr [JStr ''patient-view''])) \<and>
   post_patient_view (test_runtime (Inl RequestError) [])
     (hook_request bearer (JArr [JStr ''patient-view''])) new_res =
     Inr \<lparr>fetches = [sample_options],
          response = \<lparr>status = 200, res_headers = [],
            sent = Some (JObj [(''cards'', JArr [])])\<rparr>\<rparr>\<close>
  by (simp add: post_patient_view_def hook_request_def bearer_def test_runtime_def index1_def
      new_res_def res_json_def respond_cards_def pipeline_def to_string_def
      immunization_request_def sample_options_def)

section \<open>The outbound request\<close>

text \<open>
  C9. For every valid patient-view request (Authorization header present and decoded,
  hook accepted) with \<^verbatim>\<open>fhirServer\<close> the string \<open>F\<close> and \<^verbatim>\<open>context.patientId\<close> the string
  \<open>P\<close>, the one outbound request is a GET to \<open>F\<close> followed by \<^verbatim>\<open>/Immunization\<close>, with query
  parameter \<^verbatim>\<open>patient\<close> = \<open>P\<close> and header \<^verbatim>\<open>Accept: application/json+fhir\<close>, and the
  response body it resolves with goes through \<^verbatim>\<open>JSON.parse\<close> before any other step. Both
  sources agree.
\<close>

theorem fhir_request_shape:
  assumes "map_of (req_headers req) ''authorization'' = Some auth"
    and "jwt_decode rt (index1 (split auth CHR '' '')) = Inr decoded"
    and "get_prop (Some (req_body req)) ''hook'' = Inr hook"
    and "loosely_equals_patient_view rt hook = Inr True"
    and "get_prop (Some (req_body req)) ''fhirServer'' = Inr (Some (JStr F))"
    and "get_prop (Some (req_body req)) ''context'' = Inr context"
    and "get_prop context ''patientId'' = Inr (Some (JStr P))"
    and "options = \<lparr>uri = F @ ''/Immunization'', rp_method = ''GET'',
                     rp_headers = [(''Accept'', ''application/json+fhir'')],
                     qs = [(''patient'', Some (JStr P))]\<rparr>"
  shows "post_patient_view rt req r =
           Inr \<lparr>fetches = [options],
                response = respond_cards r
                  (ebind (rp rt options) (\<lambda>text.
                   ebind (JSON_parse rt text) (\<lambda>record.
                   ebind (select_entry rt record) (\<lambda>l.
                   ebind (sort_step rt record l) (\<lambda>(record', immun_list).
                   ebind (render_cards rt (''Your Immune Registry'', '''') immun_list) (\<lambda>cards.
                     Inr (record', cards)))))))\<rparr> \<and>
         post_patient_view_index rt req r =
           Inr \<lparr>fetches = [options],
                response = respond_cards r
                  (ebind (rp rt options) (\<lambda>text.
                   ebind (JSON_parse rt text) (\<lambda>record.
                   ebind (select_entry rt record) (\<lambda>l.
                   ebind (sort_step rt record l) (\<lambda>(record', immun_list).
                   ebind (render_cards rt (''Local Immune Registry'', ''http://www.google.com'')
                            immun_list) (\<lambda>cards.
                     Inr (record', cards)))))))\<rparr>"
  using assms
  by (simp add: post_patient_view_def post_patient_view_index_def pipeline_index_eq
      pipeline_def to_string_def immunization_request_def Let_def)

theorem fhir_request_shape_witness:
  "post_patient_view (test_runtime (Inr no_entry_text) [(no_entry_text, no_entry_bundle)])
     (hook_request bearer (JStr ''patient-view'')) new_res =
     Inr \<lparr>fetches =
            [\<lparr>uri = ''http://fhir.example/r2/Immunization'', rp_method = ''GET'',
              rp_headers = [(''Accept'', ''application/json+fhir'')],
              qs = [(''patient'', Some (JStr ''p1''))]\<rparr>],
          response = \<lparr>status = 200, res_headers = [],
            sent = Some (JObj [(''cards'', JArr [])])\<rparr>\<rparr>"
  using fhir_request_shape [of "hook_request bearer (JStr ''patient-view'')" "''Bearer a.b.c''"
      "test_runtime (Inr no_entry_text) [(no_entry_text, no_entry_bundle)]" "()"
      "Some (JStr ''patient-view'')"
      "''http://fhir.example/r2''" "Some (JObj [(''patientId'', JStr ''p1'')])" "''p1''"
      "\<lparr>uri = ''http://fhir.example/r2/Immunization'', rp_method = ''GET'',
       rp_headers = [(''Accept'', ''application/json+fhir'')],
       qs = [(''patient'', Some (JStr ''p1''))]\<rparr>" new_res]
  by (simp add: hook_request_def bearer_def test_runtime_def select_entry_def
      no_entry_bundle_def respond_cards_def res_json_def new_res_def)

section \<open>The catch at the end of the chain\<close>

lemma respond_cards_Inl [simp]:
  "respond_cards r (Inl e) = \<lparr>status = status r, res_headers = res_headers r,
     sent = Some (JObj [(''cards'', JArr [])])\<rparr>"
  by (simp add: respond_cards_def res_json_def)

lemma respond_cards_Inr [simp]:
  "respond_cards r (Inr (record', cards)) = \<lparr>status = status r, res_headers = res_headers r,
     sent = Some (JObj [(''cards'', JArr cards)])\<rparr>"
  by (simp add: respond_cards_def res_json_def)

text \<open>
  C5. For every valid patient-view request (one that gets as far as the fetch) whose
  fetched bundle has \<^verbatim>\<open>total == 0\<close>, the chain raises the domain error, the thrown string
  \<^verbatim>\<open>"No immmunization Record found"\<close>, and the catch converts it into the successful
  response HTTP 200 with body \<^verbatim>\<open>{cards: []}\<close>; it is never surfaced as a server error.
  Both sources agree.
\<close>

theorem zero_total_answers_empty_cards:
  assumes "issued_request rt req = Inr (Some options)"
    and "rp rt options = Inr text"
    and "JSON_parse rt text = Inr record"
    and "get_prop (Some record) ''total'' = Inr tot"
    and "loosely_equals_zero rt tot = Inr True"
    and "status r = 200"
  shows "select_entry rt record = Inl (Thrown ''No immmunization Record found'') \<and>
         post_patient_view rt req r =
           Inr \<lparr>fetches = [options],
                response = \<lparr>status = 200, res_headers = res_headers r,
                  sent = Some (JObj [(''cards'', JArr [])])\<rparr>\<rparr> \<and>
         post_patient_view_index rt req r =
           Inr \<lparr>fetches = [options],
                response = \<lparr>status = 200, res_headers = res_headers r,
                  sent = Some (JObj [(''cards'', JArr [])])\<rparr>\<rparr>"
proof -
  have thrown: "select_entry rt record = Inl (Thrown ''No immmunization Record found'')"
    using assms(4,5) by (simp add: select_entry_def throw_def)
  then have "pipeline rt src (rp rt options) = Inl (Thrown ''No immmunization Record found'')" for src
    using assms(2,3) by (simp add: pipeline_def)
  then show ?thesis
    using thrown assms(1,6)
    by (simp add: post_patient_view_factor post_patient_view_index_factor pipeline_index_eq)
qed

theorem zero_total_answers_empty_cards_witness:
  "post_patient_view (test_runtime (Inr zero_total_text) [(zero_total_text, zero_total_bundle)])
     (hook_request bearer (JStr ''patient-view'')) (cors_middleware new_res) =
     Inr \<lparr>fetches = [sample_options],
          response = \<lparr>status = 200, res_headers = res_headers (cors_middleware new_res),
             sent = Some (JObj [(''cards'', JArr [])])\<rparr>\<rparr>"
  using zero_total_answers_empty_cards [of
      "test_runtime (Inr zero_total_text) [(zero_total_text, zero_total_bundle)]"
      "hook_request bearer (JStr ''patient-view'')" sample_options zero_total_text
      zero_total_bundle "Some (JNum 0)" "cors_middleware new_res"]
  by (simp add: issued_request_def hook_request_def bearer_def test_runtime_def index1_def
      to_string_def immunization_request_def sample_options_def zero_total_bundle_def
      bundle_of_def)

section \<open>Rendering a row\<close>

text \<open>
  C10. For every entry whose \<^verbatim>\<open>resource.expirationDate\<close> is present but falsy (the empty
  string, for one), the cell of its row holds the literal text \<^verbatim>\<open>Does not expire\<close>
  rather than the field's value: the substitution tests the value's truthiness, not
  the field's absence.
\<close>

theorem falsy_expiration_prints_default:
  assumes "get_prop (Some val) ''resource'' = Inr r"
    and "get_prop r ''expirationDate'' = Inr (Some d)"
    and "\<not> truthy (Some d)"
    and "vaccine_text val = Inr t"
    and "to_string rt t = Inr name"
  shows "render_row rt val = Inr (''| '' @ name @ '' | Does not expire |'')"
  using assms by (simp add: render_row_def to_string_def)

theorem falsy_expiration_prints_default_witness:
  "\<not> truthy (Some (JStr '''')) \<and>
   render_row (test_runtime (Inl RequestError) [])
     (entry_with [(''vaccineCode'', JObj [(''text'', JStr ''MMR'')]),
                  (''expirationDate'', JStr '''')]) =
     Inr ''| MMR | Does not expire |''"
proof -
  let ?rt = "test_runtime (Inl RequestError) []"
  let ?r = "JObj [(''vaccineCode'', JObj [(''text'', JStr ''MMR'')]), (''expirationDate'', JStr '''')]"
  let ?val = "entry_with [(''vaccineCode'', JObj [(''text'', JStr ''MMR'')]),
                          (''expirationDate'', JStr '''')]"
  have 1: "get_prop (Some ?val) ''resource'' = Inr (Some ?r)"
    by (simp add: entry_with_def)
  have 2: "get_prop (Some ?r) ''expirationDate'' = Inr (Some (JStr ''''))"
    by simp
  have 3: "\<not> truthy (Some (JStr ''''))"
    by simp
  have 4: "vaccine_text ?val = Inr (Some (JStr ''MMR''))"
    by (simp add: entry_with_def vaccine_text_def)
  have 5: "to_string ?rt (Some (JStr ''MMR'')) = Inr ''MMR''"
    by (simp add: to_string_def)
  show ?thesis
    using 3 falsy_expiration_prints_default [OF 1 2 3 4 5] by simp
qed

section \<open>Facts about the sort\<close>

subsection \<open>The sort on a comparator that does not throw\<close>

lemma insert_entry_place:
  assumes "\<forall>y\<in>set ys. cmp p y = Inr (c p y)"
  shows "insert_entry cmp p ys = Inr (place c p ys)"
  using assms by (induction ys) auto

lemma set_place [simp]: "set (place c p ys) = insert p (set ys)"
  by (induction ys) auto

lemma sort_from_place_all:
  assumes "\<forall>x\<in>set xs. \<forall>y\<in>set done \<union> set xs. cmp x y = Inr (c x y)"
  shows "sort_from cmp done xs = Inr (place_all c done xs)"
  using assms
proof (induction xs arbitrary: "done")
  case Nil
  then show ?case by simp
next
  case (Cons x xs)
  have "insert_entry cmp x done = Inr (place c x done)"
    using Cons.prems by (intro insert_entry_place) simp
  moreover have "sort_from cmp (place c x done) xs = Inr (place_all c (place c x done) xs)"
    using Cons.prems by (intro Cons.IH) auto
  ultimately show ?case by simp
qed

lemma array_sort_stable_sort:
  assumes "\<forall>x\<in>set xs. \<forall>y\<in>set xs. cmp x y = Inr (c x y)"
  shows "array_sort cmp xs = Inr (stable_sort c xs)"
  using assms by (simp add: array_sort_def stable_sort_def sort_from_place_all)

subsection \<open>Permutation\<close>

lemma mset_insert_entry:
  "insert_entry cmp p ys = Inr r \<Longrightarrow> mset r = add_mset p (mset ys)"
  by (induction ys arbitrary: r) (auto split: sum.splits if_splits)

lemma mset_sort_from:
  "sort_from cmp done xs = Inr r \<Longrightarrow> mset r = mset done + mset xs"
  by (induction xs arbitrary: "done" r) (auto split: sum.splits dest!: mset_insert_entry)

lemma mset_array_sort: "array_sort cmp xs = Inr r \<Longrightarrow> mset r = mset xs"
  by (auto simp: array_sort_def dest: mset_sort_from)

lemma mset_place [simp]: "mset (place c p ys) = add_mset p (mset ys)"
  by (induction ys) auto

lemma mset_place_all [simp]: "mset (place_all c done xs) = mset done + mset xs"
  by (induction xs arbitrary: "done") auto

lemma mset_stable_sort [simp]: "mset (stable_sort c xs) = mset xs"
  by (simp add: stable_sort_def)

subsection \<open>Order and stability, for a consistent comparator\<close>












subsection \<open>Comparison by code units is consistent\<close>





section \<open>The chain on well-formed entries\<close>

lemma ebind_eq_Inr:
  "ebind m f = Inr y \<longleftrightarrow> (\<exists>v. m = Inr v \<and> f v = Inr y)"
  by (cases m) simp_all

lemma well_formed_entry_name:
  assumes "well_formed_entry e"
  shows "vaccine_text e = Inr (Some (JStr (name_of e)))"
proof (cases "vaccine_text e")
  case (Inl a)
  with assms show ?thesis by (simp add: well_formed_entry_def)
next
  case (Inr t)
  show ?thesis
  proof (cases t)
    case None
    with Inr assms show ?thesis by (simp add: well_formed_entry_def)
  next
    case (Some j)
    with Inr assms show ?thesis
      by (cases j) (simp_all add: well_formed_entry_def name_of_def)
  qed
qed

lemma well_formed_entry_date:
  assumes "well_formed_entry e"
  shows "expiration_date e = Inr (map_option JStr (date_of e))"
proof -
  have wf: "(case expiration_date e of Inr None \<Rightarrow> True | Inr (Some (JStr d)) \<Rightarrow> True | _ \<Rightarrow> False)"
    using assms well_formed_entry_name [OF assms] by (simp add: well_formed_entry_def)
  show ?thesis
  proof (cases "expiration_date e")
    case (Inl a)
    with wf show ?thesis by simp
  next
    case (Inr t)
    show ?thesis
    proof (cases t)
      case None
      with Inr show ?thesis by (simp add: date_of_def)
    next
      case (Some j)
      with Inr wf show ?thesis by (cases j) (simp_all add: date_of_def)
    qed
  qed
qed

lemma compare_entries_well_formed:
  assumes "well_formed_entry a" and "well_formed_entry b"
  shows "compare_entries rt a b = Inr (entry_order rt a b)"
  by (simp add: compare_entries_def entry_order_def to_string_def
      well_formed_entry_name [OF assms(1)] well_formed_entry_name [OF assms(2)])

lemma render_row_well_formed:
  assumes "well_formed_entry e"
  shows "render_row rt e = Inr (row_of e)"
proof -
  from well_formed_entry_date [OF assms]
  obtain r where r: "get_prop (Some e) ''resource'' = Inr r"
    and d: "get_prop r ''expirationDate'' = Inr (map_option JStr (date_of e))"
    by (auto simp: expiration_date_def ebind_eq_Inr)
  show ?thesis
  proof (cases "date_of e")
    case None
    with r d show ?thesis
      by (simp add: render_row_def well_formed_entry_name [OF assms] to_string_def
          row_of_def table_row_def date_cell_def)
  next
    case (Some s)
    with r d show ?thesis
      by (simp add: render_row_def well_formed_entry_name [OF assms] to_string_def
          row_of_def table_row_def date_cell_def)
  qed
qed

lemma map_err_total:
  assumes "\<forall>x\<in>set xs. f x = Inr (g x)"
  shows "map_err f xs = Inr (map g xs)"
  using assms by (induction xs) auto

lemma sort_step_well_formed:
  assumes "\<forall>e\<in>set es. well_formed_entry e"
  shows "sort_step rt record (Some (JArr es)) =
           Inr (put_prop record ''entry'' (JArr (stable_sort (entry_order rt) es)),
                stable_sort (entry_order rt) es)"
proof -
  have "array_sort (compare_entries rt) es = Inr (stable_sort (entry_order rt) es)"
    using assms by (intro array_sort_stable_sort) (simp add: compare_entries_well_formed)
  then show ?thesis by simp
qed

lemma set_stable_sort [simp]: "set (stable_sort c xs) = set xs"
  using mset_stable_sort [of c xs] by (metis set_mset_mset)

lemma stable_sort_Nil_iff [simp]: "stable_sort c xs = [] \<longleftrightarrow> xs = []"
  using mset_stable_sort [of c xs] by (metis mset_zero_iff)

lemma pipeline_well_formed:
  assumes "JSON_parse rt text = Inr record"
    and "get_prop (Some record) ''total'' = Inr tot"
    and "loosely_equals_zero rt tot = Inr False"
    and "get_prop (Some record) ''entry'' = Inr (Some (JArr es))"
    and "es \<noteq> []"
    and "\<forall>e\<in>set es. well_formed_entry e"
  shows "pipeline rt src (Inr text) =
           Inr (put_prop record ''entry'' (JArr (stable_sort (entry_order rt) es)),
                [card src (table_header @ join_lines (map row_of (stable_sort (entry_order rt) es)))])"
proof -
  have sel: "select_entry rt record = Inr (Some (JArr es))"
    using assms(2,3,4) by (simp add: select_entry_def)
  have rows: "map_err (render_row rt) (stable_sort (entry_order rt) es) =
      Inr (map row_of (stable_sort (entry_order rt) es))"
    using assms(6) by (intro map_err_total) (simp add: render_row_well_formed)
  have "render_cards rt src (stable_sort (entry_order rt) es) =
      Inr [card src (table_header @ join_lines (map row_of (stable_sort (entry_order rt) es)))]"
    using assms(5) rows by (simp add: render_cards_def)
  then show ?thesis
    using assms(1) sel sort_step_well_formed [OF assms(6)]
    by (simp add: pipeline_def)
qed

section \<open>The rendered card\<close>

lemma handlers_on_well_formed:
  assumes "issued_request rt req = Inr (Some options)"
    and "rp rt options = Inr text"
    and "JSON_parse rt text = Inr record"
    and "get_prop (Some record) ''total'' = Inr tot"
    and "loosely_equals_zero rt tot = Inr False"
    and "get_prop (Some record) ''entry'' = Inr (Some (JArr es))"
    and "es \<noteq> []"
    and "\<forall>e\<in>set es. well_formed_entry e"
  shows "post_patient_view rt req r =
           Inr \<lparr>fetches = [options],
                response = \<lparr>status = status r, res_headers = res_headers r,
                  sent = Some (JObj [(''cards'', JArr
                    [card (''Your Immune Registry'', '''')
                       (table_header @ join_lines (map row_of (stable_sort (entry_order rt) es)))])])\<rparr>\<rparr>"
    and "post_patient_view_index rt req r =
           Inr \<lparr>fetches = [options],
                response = \<lparr>status = status r, res_headers = res_headers r,
                  sent = Some (JObj [(''cards'', JArr
                    [card (''Local Immune Registry'', ''http://www.google.com'')
                       (table_header @ join_lines (map row_of (stable_sort (entry_order rt) es)))])])\<rparr>\<rparr>"
  using assms(1,2) pipeline_well_formed [OF assms(3-8)]
  by (simp_all add: post_patient_view_factor post_patient_view_index_factor pipeline_index_eq)

lemma issued_sample:
  "issued_request (test_runtime fetched table) (hook_request bearer (JStr ''patient-view'')) =
     Inr (Some sample_options)"
  by (simp add: issued_request_def hook_request_def bearer_def test_runtime_def index1_def
      to_string_def immunization_request_def sample_options_def)

text \<open>
  C3 (as amended). For every valid patient-view request (one that gets as far as the
  fetch) whose fetched bundle has a \<^verbatim>\<open>total\<close> that is not \<^verbatim>\<open>== 0\<close> and a non-empty entry
  list of well-formed entries, the response is HTTP 200 with exactly one card. Its
  detail is a markdown table: the header row \<^verbatim>\<open>| Vaccination | Expiration Date |\<close>, the
  alignment row, and one row per entry holding the entry's \<^verbatim>\<open>vaccineCode.text\<close> and its
  \<^verbatim>\<open>expirationDate\<close>, with the literal \<^verbatim>\<open>Does not expire\<close> when the date is absent or
  empty. The summary is a fixed sentence, the source a fixed label/url pair (one pair
  in each source file), the indicator is \<^verbatim>\<open>info\<close>.
\<close>

theorem one_card_with_table:
  assumes "issued_request rt req = Inr (Some options)"
    and "rp rt options = Inr text"
    and "JSON_parse rt text = Inr record"
    and "get_prop (Some record) ''total'' = Inr tot"
    and "loosely_equals_zero rt tot = Inr False"
    and "get_prop (Some record) ''entry'' = Inr (Some (JArr es))"
    and "es \<noteq> []"
    and "\<forall>e\<in>set es. well_formed_entry e"
    and "status r = 200"
    and "ordered = stable_sort (entry_order rt) es"
  shows "post_patient_view rt req r =
           Inr \<lparr>fetches = [options],
                response = \<lparr>status = 200, res_headers = res_headers r,
                  sent = Some (JObj [(''cards'', JArr
                    [JObj [(''summary'', JStr ''This patient has received immunizations''),
                           (''detail'', JStr (''| Vaccination | Expiration Date |'' @ newline @
                                              ''| :---: | :---: |'' @ newline @
                                              join_lines (map row_of ordered))),
                           (''source'', JObj [(''label'', JStr ''Your Immune Registry''),
                                              (''url'', JStr '''')]),
                           (''indicator'', JStr ''info'')]])])\<rparr>\<rparr> \<and>
         post_patient_view_index rt req r =
           Inr \<lparr>fetches = [options],
                response = \<lparr>status = 200, res_headers = res_headers r,
                  sent = Some (JObj [(''cards'', JArr
                    [JObj [(''summary'', JStr ''This patient has received immunizations''),
                           (''detail'', JStr (''| Vaccination | Expiration Date |'' @ newline @
                                              ''| :---: | :---: |'' @ newline @
                                              join_lines (map row_of ordered))),
                           (''source'', JObj [(''label'', JStr ''Local Immune Registry''),
                                              (''url'', JStr ''http://www.google.com'')]),
                           (''indicator'', JStr ''info'')]])])\<rparr>\<rparr> \<and>
         length (map row_of ordered) = length es \<and>
         (\<forall>e\<in>set es. row_of e =
            ''| '' @ name_of e @ '' | '' @
            (case date_of e of
               None \<Rightarrow> ''Does not expire''
             | Some d \<Rightarrow> if d = [] then ''Does not expire'' else d) @ '' |'')"
proof -
  have "length ordered = length es"
    using mset_stable_sort [of "entry_order rt" es] assms(10) by (metis size_mset)
  moreover have "row_of e =
            ''| '' @ name_of e @ '' | '' @
            (case date_of e of
               None \<Rightarrow> ''Does not expire''
             | Some d \<Rightarrow> if d = [] then ''Does not expire'' else d) @ '' |''" for e
    by (simp add: row_of_def table_row_def date_cell_def)
  ultimately show ?thesis
    using handlers_on_well_formed [OF assms(1-8), of r] assms(9,10)
    by (simp add: card_def table_header_def)
qed

theorem one_card_with_table_witness:
  "post_patient_view (test_runtime (Inr sample_text) [(sample_text, sample_bundle)])
     (hook_request bearer (JStr ''patient-view'')) (cors_middleware new_res) =
     Inr \<lparr>fetches = [sample_options],
          response = \<lparr>status = 200, res_headers = res_headers (cors_middleware new_res),
            sent = Some (JObj [(''cards'', JArr
              [JObj [(''summary'', JStr ''This patient has received immunizations''),
                     (''detail'', JStr (''| Vaccination | Expiration Date |'' @ newline @
                                        ''| :---: | :---: |'' @ newline @
                                        ''| Flu | 2025-01-01 |'' @ newline @
                                        ''| MMR | Does not expire |'')),
                     (''source'', JObj [(''label'', JStr ''Your Immune Registry''),
                                        (''url'', JStr '''')]),
                     (''indicator'', JStr ''info'')]])])\<rparr>\<rparr>"
proof -
  let ?rt = "test_runtime (Inr sample_text) [(sample_text, sample_bundle)]"
  let ?req = "hook_request bearer (JStr ''patient-view'')"
  have 1: "issued_request ?rt ?req = Inr (Some sample_options)"
    by (simp add: issued_request_def hook_request_def bearer_def test_runtime_def index1_def
        to_string_def immunization_request_def sample_options_def)
  have 2: "rp ?rt sample_options = Inr sample_text"
    by (simp add: test_runtime_def)
  have 3: "JSON_parse ?rt sample_text = Inr sample_bundle"
    by (simp add: test_runtime_def)
  have 4: "get_prop (Some sample_bundle) ''total'' = Inr (Some (JNum 2))"
    by (simp add: sample_bundle_def bundle_of_def)
  have 5: "loosely_equals_zero ?rt (Some (JNum 2)) = Inr False"
    by simp
  have 6: "get_prop (Some sample_bundle) ''entry'' = Inr (Some (JArr [mmr_entry, flu_entry]))"
    by (simp add: sample_bundle_def bundle_of_def)
  have 7: "[mmr_entry, flu_entry] \<noteq> []"
    by simp
  have 8: "\<forall>e\<in>set [mmr_entry, flu_entry]. well_formed_entry e"
    by (simp add: well_formed_entry_def mmr_entry_def flu_entry_def entry_with_def
        vaccine_text_def expiration_date_def)
  have 9: "status (cors_middleware new_res) = 200"
    by simp
  have 10: "[flu_entry, mmr_entry] = stable_sort (entry_order ?rt) [mmr_entry, flu_entry]"
    by (simp add: stable_sort_def entry_order_def name_of_def mmr_entry_def flu_entry_def
        entry_with_def vaccine_text_def test_runtime_def)
  have rows: "map row_of [flu_entry, mmr_entry] = [''| Flu | 2025-01-01 |'', ''| MMR | Does not expire |'']"
    by (simp add: row_of_def table_row_def date_cell_def date_of_def name_of_def mmr_entry_def
        flu_entry_def entry_with_def vaccine_text_def expiration_date_def)
  show ?thesis
    using one_card_with_table [OF 1 2 3 4 5 6 7 8 9 10] rows
    by simp
qed

text \<open>
  C3 as stated fails: a bundle may carry entries and still say \<^verbatim>\<open>total: 0\<close>; the chain
  then throws before it looks at the entries and the response holds no card.
\<close>

theorem zero_total_with_entries_counterexample:
  "get_prop (Some zero_total_bundle) ''entry'' = Inr (Some (JArr [mmr_entry])) \<and>
   post_patient_view (test_runtime (Inr zero_total_text) [(zero_total_text, zero_total_bundle)])
     (hook_request bearer (JStr ''patient-view'')) new_res =
     Inr \<lparr>fetches = [sample_options],
          response = \<lparr>status = 200, res_headers = [],
            sent = Some (JObj [(''cards'', JArr [])])\<rparr>\<rparr>"
  by (simp add: post_patient_view_factor issued_request_def hook_request_def bearer_def
      test_runtime_def index1_def to_string_def immunization_request_def sample_options_def
      zero_total_bundle_def bundle_of_def pipeline_def select_entry_def throw_def new_res_def)



section \<open>The bundle after the chain\<close>

lemma sort_step_Inr:
  assumes "sort_step rt record l = Inr (record', immun_list)"
  shows "\<exists>es. l = Some (JArr es) \<and> array_sort (compare_entries rt) es = Inr immun_list \<and>
              record' = put_prop record ''entry'' (JArr immun_list)"
  using assms by (cases "(rt, record, l)" rule: sort_step.cases) (auto simp: ebind_eq_Inr)

lemma select_entry_Inr:
  assumes "select_entry rt record = Inr l"
  shows "get_prop (Some record) ''entry'' = Inr l"
  using assms by (auto simp: select_entry_def ebind_eq_Inr throw_def split: if_splits)

lemma get_prop_Some_Inr:
  assumes "get_prop (Some j) k = Inr (Some v)"
  shows "\<exists>kvs. j = JObj kvs \<and> map_of kvs k = Some v"
  using assms by (cases j) auto

lemma pipeline_Inr:
  assumes "pipeline rt src (Inr text) = Inr (record', cards)"
  shows "\<exists>record l immun_list. JSON_parse rt text = Inr record \<and> select_entry rt record = Inr l \<and>
           sort_step rt record l = Inr (record', immun_list) \<and>
           render_cards rt src immun_list = Inr cards"
  using assms by (auto simp: pipeline_def ebind_eq_Inr)

text \<open>
  C6 (as amended). The pipeline changes nothing in the fetched bundle but the order of
  its entry array: the ordering step sorts that array in place. When the chain has
  built its cards, the bundle is the bundle as received with its entry sequence
  replaced by the list the sort returned, which is also the list the cards are
  rendered from: a permutation of the received entries, and for well-formed entries
  their stable sorted order. Every other property reads as before, and the bundle
  equals the one received exactly when the sort returned the entries in the order they
  had. Both sources agree.
\<close>

theorem ordering_step_sorts_in_place:
  assumes "JSON_parse rt text = Inr record"
    and "pipeline rt src (Inr text) = Inr (record', cards)"
  shows "\<exists>es ordered.
           get_prop (Some record) ''entry'' = Inr (Some (JArr es)) \<and>
           array_sort (compare_entries rt) es = Inr ordered \<and>
           record' = put_prop record ''entry'' (JArr ordered) \<and>
           get_prop (Some record') ''entry'' = Inr (Some (JArr ordered)) \<and>
           render_cards rt src ordered = Inr cards \<and>
           mset ordered = mset es \<and>
           ((\<forall>e\<in>set es. well_formed_entry e) \<longrightarrow> ordered = stable_sort (entry_order rt) es) \<and>
           (\<forall>k. k \<noteq> ''entry'' \<longrightarrow> get_prop (Some record') k = get_prop (Some record) k) \<and>
           (record' = record \<longleftrightarrow> ordered = es) \<and>
           pipeline_index rt src (Inr text) = Inr (record', cards)"
proof -
  from pipeline_Inr [OF assms(2)] assms(1)
  obtain l ordered where sel: "select_entry rt record = Inr l"
    and srt: "sort_step rt record l = Inr (record', ordered)"
    and rendered: "render_cards rt src ordered = Inr cards"
    by auto
  from sort_step_Inr [OF srt]
  obtain es where l: "l = Some (JArr es)"
    and sorted: "array_sort (compare_entries rt) es = Inr ordered"
    and record': "record' = put_prop record ''entry'' (JArr ordered)"
    by auto
  have entry: "get_prop (Some record) ''entry'' = Inr (Some (JArr es))"
    using select_entry_Inr [OF sel] l by simp
  then obtain kvs where kvs: "record = JObj kvs" "map_of kvs ''entry'' = Some (JArr es)"
    using get_prop_Some_Inr by blast
  have entry': "get_prop (Some record') ''entry'' = Inr (Some (JArr ordered))"
    using kvs record' by (simp add: update_conv')
  have perm: "mset ordered = mset es"
    using sorted by (rule mset_array_sort)
  have stable: "ordered = stable_sort (entry_order rt) es" if "\<forall>e\<in>set es. well_formed_entry e"
  proof -
    have "array_sort (compare_entries rt) es = Inr (stable_sort (entry_order rt) es)"
      using that by (intro array_sort_stable_sort) (simp add: compare_entries_well_formed)
    with sorted show ?thesis by simp
  qed
  have others: "get_prop (Some record') k = get_prop (Some record) k" if "k \<noteq> ''entry''" for k
    using that kvs record' by (simp add: update_conv')
  have same: "record' = record \<longleftrightarrow> ordered = es"
  proof
    assume "record' = record"
    with entry entry' show "ordered = es" by simp
  next
    assume "ordered = es"
    with kvs record' show "record' = record" by (simp add: update_triv)
  qed
  have index: "pipeline_index rt src (Inr text) = Inr (record', cards)"
    using assms(2) by (simp add: pipeline_index_eq)
  show ?thesis
    using entry sorted record' entry' rendered perm stable others same index by blast
qed

theorem ordering_step_sorts_in_place_witness:
  "get_prop (Some sample_bundle) ''entry'' = Inr (Some (JArr [mmr_entry, flu_entry])) \<and>
   array_sort (compare_entries (test_runtime (Inr sample_text) [(sample_text, sample_bundle)]))
     [mmr_entry, flu_entry] = Inr [flu_entry, mmr_entry] \<and>
   get_prop (Some (bundle_of 2 [flu_entry, mmr_entry])) ''entry'' =
     Inr (Some (JArr [flu_entry, mmr_entry])) \<and>
   bundle_of 2 [flu_entry, mmr_entry] \<noteq> sample_bundle"
proof -
  let ?rt = "test_runtime (Inr sample_text) [(sample_text, sample_bundle)]"
  let ?src = "(''Your Immune Registry'', '''')"
  have 1: "JSON_parse ?rt sample_text = Inr sample_bundle"
    by (simp add: test_runtime_def)
  have wf: "\<forall>e\<in>set [mmr_entry, flu_entry]. well_formed_entry e"
    by (simp add: well_formed_entry_def mmr_entry_def flu_entry_def entry_with_def
        vaccine_text_def expiration_date_def)
  have ord: "stable_sort (entry_order ?rt) [mmr_entry, flu_entry] = [flu_entry, mmr_entry]"
    by (simp add: stable_sort_def entry_order_def name_of_def mmr_entry_def flu_entry_def
        entry_with_def vaccine_text_def test_runtime_def)
  have 2: "pipeline ?rt ?src (Inr sample_text) =
      Inr (bundle_of 2 [flu_entry, mmr_entry],
           [card ?src (table_header @ join_lines (map row_of [flu_entry, mmr_entry]))])"
    using pipeline_well_formed [OF 1, of "Some (JNum 2)" "[mmr_entry, flu_entry]" ?src] wf ord
    by (simp add: sample_bundle_def bundle_of_def)
  have received: "get_prop (Some sample_bundle) ''entry'' = Inr (Some (JArr [mmr_entry, flu_entry]))"
    by (simp add: sample_bundle_def bundle_of_def)
  from ordering_step_sorts_in_place [OF 1 2]
  obtain es ordered where es: "get_prop (Some sample_bundle) ''entry'' = Inr (Some (JArr es))"
    and sorted: "array_sort (compare_entries ?rt) es = Inr ordered"
    and after: "get_prop (Some (bundle_of 2 [flu_entry, mmr_entry])) ''entry'' = Inr (Some (JArr ordered))"
    and stable: "(\<forall>e\<in>set es. well_formed_entry e) \<longrightarrow> ordered = stable_sort (entry_order ?rt) es"
    and same: "bundle_of 2 [flu_entry, mmr_entry] = sample_bundle \<longleftrightarrow> ordered = es"
    by blast
  have es_eq: "es = [mmr_entry, flu_entry]"
    using es received by simp
  have ordered_eq: "ordered = [flu_entry, mmr_entry]"
    using stable wf ord unfolding es_eq by simp
  have differ: "[flu_entry, mmr_entry] \<noteq> [mmr_entry, flu_entry]"
    by (simp add: mmr_entry_def flu_entry_def entry_with_def)
  show ?thesis
    using received sorted after same differ unfolding es_eq ordered_eq by simp
qed

text \<open>
  C6 as stated fails: the bundle of the specification's own scenario (MMR before Flu)
  is left holding Flu before MMR.
\<close>

theorem sort_mutates_bundle_counterexample:
  "JSON_parse (test_runtime (Inr sample_text) [(sample_text, sample_bundle)]) sample_text =
     Inr sample_bundle \<and>
   map_sum id fst (pipeline (test_runtime (Inr sample_text) [(sample_text, sample_bundle)])
     (''Your Immune Registry'', '''') (Inr sample_text)) =
     Inr (bundle_of 2 [flu_entry, mmr_entry]) \<and>
   bundle_of 2 [flu_entry, mmr_entry] \<noteq> sample_bundle"
  by (simp add: pipeline_def test_runtime_def sample_bundle_def bundle_of_def select_entry_def
      array_sort_def compare_entries_def vaccine_text_def to_string_def
      mmr_entry_def flu_entry_def entry_with_def render_cards_def render_row_def)

section \<open>Failures inside the chain\<close>

lemma render_cards_Inl:
  assumes "render_cards rt src l = Inl e"
  shows "render_cards rt src' l = Inl e"
  using assms by (cases "map_err (render_row rt) l") (auto simp: render_cards_def split: if_splits)

lemma pipeline_Inl_any_source:
  assumes "pipeline rt src fetched = Inl e"
  shows "pipeline rt src' fetched = Inl e"
proof (cases fetched)
  case (Inl a)
  with assms show ?thesis by (simp add: pipeline_def)
next
  case fetched_body: (Inr body_text)
  show ?thesis
  proof (cases "JSON_parse rt body_text")
    case (Inl a)
    with assms fetched_body show ?thesis by (simp add: pipeline_def)
  next
    case parsed: (Inr parsed_body)
    show ?thesis
    proof (cases "select_entry rt parsed_body")
      case (Inl a)
      with assms fetched_body parsed show ?thesis by (simp add: pipeline_def)
    next
      case selected: (Inr l)
      show ?thesis
      proof (cases "sort_step rt parsed_body l")
        case (Inl a)
        with assms fetched_body parsed selected show ?thesis by (simp add: pipeline_def)
      next
        case (Inr p)
        obtain record' immun_list where p: "p = (record', immun_list)" by (cases p)
        have "render_cards rt src immun_list = Inl e"
          using assms fetched_body parsed selected Inr p
          by (cases "render_cards rt src immun_list") (simp_all add: pipeline_def)
        then have "render_cards rt src' immun_list = Inl e" by (rule render_cards_Inl)
        with fetched_body parsed selected Inr p show ?thesis by (simp add: pipeline_def)
      qed
    qed
  qed
qed

lemma sort_step_not_array:
  assumes "\<forall>es. l \<noteq> Some (JArr es)"
  shows "sort_step rt record l = Inl TypeError"
  using assms by (cases "(rt, record, l)" rule: sort_step.cases) auto

text \<open>
  C2 (as amended). For every patient-view request that passes hook validation and gets
  as far as the fetch, any exception raised in the fetch-parse-sort-render chain (a
  rejected fetch, a JSON parse error, the empty-result short-circuit, an entry list
  that is missing or not an array, or any other throw of the chain) yields the
  response HTTP 200 with body \<^verbatim>\<open>{cards: []}\<close>; no such failure produces a non-2xx status.
  Both sources agree. (An entry that merely lacks \<^verbatim>\<open>vaccineCode.text\<close> need not raise
  anything; see the counterexample.)
\<close>

theorem chain_failure_answers_empty_cards:
  assumes "issued_request rt req = Inr (Some options)"
    and "status r = 200"
    and "rp rt options = Inl e \<or>
         (\<exists>text. rp rt options = Inr text \<and> JSON_parse rt text = Inl e) \<or>
         (\<exists>text record tot. rp rt options = Inr text \<and> JSON_parse rt text = Inr record \<and>
            get_prop (Some record) ''total'' = Inr tot \<and> loosely_equals_zero rt tot = Inr True) \<or>
         (\<exists>text record l. rp rt options = Inr text \<and> JSON_parse rt text = Inr record \<and>
            select_entry rt record = Inr l \<and> (\<forall>es. l \<noteq> Some (JArr es))) \<or>
         (\<exists>src. pipeline rt src (rp rt options) = Inl e)"
  shows "post_patient_view rt req r =
           Inr \<lparr>fetches = [options],
                response = \<lparr>status = 200, res_headers = res_headers r,
                  sent = Some (JObj [(''cards'', JArr [])])\<rparr>\<rparr> \<and>
         post_patient_view_index rt req r =
           Inr \<lparr>fetches = [options],
                response = \<lparr>status = 200, res_headers = res_headers r,
                  sent = Some (JObj [(''cards'', JArr [])])\<rparr>\<rparr>"
proof -
  have "\<exists>e'. pipeline rt (''Your Immune Registry'', '''') (rp rt options) = Inl e'"
    using assms(3)
  proof (elim disjE exE conjE)
    assume "rp rt options = Inl e"
    then show ?thesis by (simp add: pipeline_def)
  next
    fix body_text assume "rp rt options = Inr body_text" "JSON_parse rt body_text = Inl e"
    then show ?thesis by (simp add: pipeline_def)
  next
    fix body_text parsed_body tot
    assume "rp rt options = Inr body_text" "JSON_parse rt body_text = Inr parsed_body"
      "get_prop (Some parsed_body) ''total'' = Inr tot" "loosely_equals_zero rt tot = Inr True"
    then show ?thesis by (simp add: pipeline_def select_entry_def throw_def)
  next
    fix body_text parsed_body l
    assume "rp rt options = Inr body_text" "JSON_parse rt body_text = Inr parsed_body"
      "select_entry rt parsed_body = Inr l" "\<forall>es. l \<noteq> Some (JArr es)"
    then show ?thesis by (simp add: pipeline_def sort_step_not_array)
  next
    fix src assume "pipeline rt src (rp rt options) = Inl e"
    then show ?thesis using pipeline_Inl_any_source by blast
  qed
  then obtain e' where 1: "pipeline rt (''Your Immune Registry'', '''') (rp rt options) = Inl e'"
    by blast
  then have 2: "pipeline rt (''Local Immune Registry'', ''http://www.google.com'') (rp rt options) = Inl e'"
    by (rule pipeline_Inl_any_source)
  show ?thesis
    using assms(1,2) 1 2
    by (simp add: post_patient_view_factor post_patient_view_index_factor pipeline_index_eq)
qed

theorem chain_failure_answers_empty_cards_witness:
  "post_patient_view (test_runtime (Inl RequestError) [])
     (hook_request bearer (JStr ''patient-view'')) (cors_middleware new_res) =
     Inr \<lparr>fetches = [sample_options],
          response = \<lparr>status = 200, res_headers = res_headers (cors_middleware new_res),
            sent = Some (JObj [(''cards'', JArr [])])\<rparr>\<rparr> \<and>
   post_patient_view (test_runtime (Inr not_json_text) [])
     (hook_request bearer (JStr ''patient-view'')) (cors_middleware new_res) =
     Inr \<lparr>fetches = [sample_options],
          response = \<lparr>status = 200, res_headers = res_headers (cors_middleware new_res),
            sent = Some (JObj [(''cards'', JArr [])])\<rparr>\<rparr> \<and>
   post_patient_view (test_runtime (Inr no_entry_text) [(no_entry_text, no_entry_bundle)])
     (hook_request bearer (JStr ''patient-view'')) (cors_middleware new_res) =
     Inr \<lparr>fetches = [sample_options],
          response = \<lparr>status = 200, res_headers = res_headers (cors_middleware new_res),
            sent = Some (JObj [(''cards'', JArr [])])\<rparr>\<rparr>"
proof -
  let ?req = "hook_request bearer (JStr ''patient-view'')"
  let ?r = "cors_middleware new_res"
  have s: "status ?r = 200" by simp
  have a: "rp (test_runtime (Inl RequestError) []) sample_options = Inl RequestError"
    by (simp add: test_runtime_def)
  have b: "\<exists>text. rp (test_runtime (Inr not_json_text) []) sample_options = Inr text \<and>
      JSON_parse (test_runtime (Inr not_json_text) []) text = Inl SyntaxError"
    by (simp add: test_runtime_def)
  have c: "\<exists>text record l.
      rp (test_runtime (Inr no_entry_text) [(no_entry_text, no_entry_bundle)]) sample_options = Inr text \<and>
      JSON_parse (test_runtime (Inr no_entry_text) [(no_entry_text, no_entry_bundle)]) text = Inr record \<and>
      select_entry (test_runtime (Inr no_entry_text) [(no_entry_text, no_entry_bundle)]) record = Inr l \<and>
      (\<forall>es. l \<noteq> Some (JArr es))"
    by (simp add: test_runtime_def select_entry_def no_entry_bundle_def)
  show ?thesis
    using chain_failure_answers_empty_cards [OF issued_sample s, of "Inl RequestError" "[]" RequestError]
      chain_failure_answers_empty_cards [OF issued_sample s, of "Inr not_json_text" "[]" SyntaxError]
      chain_failure_answers_empty_cards [OF issued_sample s, of "Inr no_entry_text"
        "[(no_entry_text, no_entry_bundle)]" TypeError]
      a b c
    by blast
qed

text \<open>
  C2 as stated fails for its own example of a malformed shape: a bundle whose single
  entry has no \<^verbatim>\<open>vaccineCode.text\<close> is never handed to the comparator, the template prints
  \<^verbatim>\<open>undefined\<close>, and the response holds a card.
\<close>

theorem missing_name_counterexample:
  "vaccine_text (entry_with [(''vaccineCode'', JObj [])]) = Inr None \<and>
   post_patient_view (test_runtime (Inr no_name_text) [(no_name_text, no_name_bundle)])
     (hook_request bearer (JStr ''patient-view'')) new_res =
     Inr \<lparr>fetches = [sample_options],
          response = \<lparr>status = 200, res_headers = [],
            sent = Some (JObj [(''cards'', JArr
              [JObj [(''summary'', JStr ''This patient has received immunizations''),
                     (''detail'', JStr (''| Vaccination | Expiration Date |'' @ newline @
                                        ''| :---: | :---: |'' @ newline @
                                        ''| undefined | Does not expire |'')),
                     (''source'', JObj [(''label'', JStr ''Your Immune Registry''),
                                        (''url'', JStr '''')]),
                     (''indicator'', JStr ''info'')]])])\<rparr>\<rparr>"
proof -
  let ?rt = "test_runtime (Inr no_name_text) [(no_name_text, no_name_bundle)]"
  have 1: "vaccine_text (entry_with [(''vaccineCode'', JObj [])]) = Inr None"
    by (simp add: entry_with_def vaccine_text_def)
  have 2: "pipeline ?rt (''Your Immune Registry'', '''') (rp ?rt sample_options) =
      Inr (no_name_bundle,
           [card (''Your Immune Registry'', '''')
              (table_header @ ''| undefined | Does not expire |'')])"
    by (simp add: pipeline_def test_runtime_def no_name_bundle_def bundle_of_def
        select_entry_def array_sort_def entry_with_def vaccine_text_def render_cards_def
        render_row_def to_string_def)
  show ?thesis
    using 1 2
    by (simp add: post_patient_view_factor issued_sample card_def table_header_def new_res_def)
qed

end
